theory Spec2Isabelle
  imports Main "HOL-Library.Sublist" "HOL-Library.Word"
begin

section \<open>The task list screen (TasksScreen) and the application shell (App)\<close>

subsection \<open>Data model\<close>

text \<open>
  A task as the screen reads it: \<open>item.id\<close>, \<open>item.title\<close>, \<open>item.description\<close>,
  \<open>item.due_date\<close>, \<open>item.priority\<close>, \<open>item.category\<close>, \<open>item.is_completed\<close>.
  The field \<open>id\<close> is written \<open>id_of\<close> (\<open>id\<close> is the identity function of HOL).
  Optional fields are \<open>None\<close> when the property is null or undefined. Where the code
  tells the two apart (\<open>new Date(undefined)\<close>, \<open>new Date(null)\<close>, \<open>== null\<close>) the field is
  a \<open>nullable\<close>. The strings that the search lower-cases and compares (\<open>title\<close>,
  \<open>description\<close>, \<open>searchQuery\<close>) are sequences of 16-bit code units, as the strings of
  the language are.
\<close>

datatype 'a nullable = Undefined | Null | Value 'a

type_synonym js_string = "16 word list"

record task =
  id_of :: nat
  title :: js_string
  description :: "js_string option"
  due_date :: "string nullable"
  priority :: "nat option"
  category :: "string option"
  is_completed :: bool

text \<open>The four filter names of the button row: \<open>'all'\<close>, \<open>'today'\<close>, \<open>'upcoming'\<close>, \<open>'completed'\<close>.\<close>

datatype task_filter = F_all | F_today | F_upcoming | F_completed

text \<open>
  The \<open>useState\<close> cells of \<open>TasksScreen\<close>. The cell \<open>filter\<close> is written \<open>filter_st\<close>
  (\<open>filter\<close> is the list function of HOL).
\<close>

record screen =
  tasks :: "task list"
  filteredTasks :: "task list"
  refreshing :: bool
  searchQuery :: js_string
  filter_st :: task_filter
  showDatePicker :: bool

subsection \<open>String primitives used by the search\<close>

text \<open>
  \<open>String.prototype.toLowerCase\<close> is supplied by the platform: it follows the case
  mappings of the Unicode character database, among them the mappings that depend on the
  neighbours of a letter and the mappings of one code unit to several. It is not a table
  of this program, so every function of the screen that reaches the search takes it as
  its first argument, under the name \<open>toLowerCase\<close>.

  \<open>String.prototype.includes\<close>, written \<open>includes_str\<close>: does \<open>q\<close> occur in \<open>s\<close> at
  some position. The search tries every start position from the left.
\<close>

fun includes_str :: "'a list \<Rightarrow> 'a list \<Rightarrow> bool" where
  "includes_str [] q = (q = [])"
| "includes_str (c # s) q = (prefix q (c # s) \<or> includes_str s q)"

subsection \<open>The search derivation: \<open>filterTasks\<close>\<close>

text \<open>
  The predicate handed to \<open>Array.prototype.filter\<close>:
  \<^verbatim>\<open>task.title.toLowerCase().includes(searchQuery.toLowerCase()) ||
  task.description?.toLowerCase().includes(searchQuery.toLowerCase())\<close>.
  With a null or undefined description the optional chain yields undefined, which is falsy.
\<close>

definition matchesQuery :: "(js_string \<Rightarrow> js_string) \<Rightarrow> js_string \<Rightarrow> task \<Rightarrow> bool" where
  "matchesQuery toLowerCase q t =
     (includes_str (toLowerCase (title t)) (toLowerCase q) \<or>
      (case description t of
         None \<Rightarrow> False
       | Some d \<Rightarrow> includes_str (toLowerCase d) (toLowerCase q)))"

text \<open>
  \<open>filterTasks\<close> reads the cells \<open>tasks\<close> and \<open>searchQuery\<close> and writes \<open>filteredTasks\<close>.
  A string is truthy exactly when it is not empty.
\<close>

definition filterTasks :: "(js_string \<Rightarrow> js_string) \<Rightarrow> screen \<Rightarrow> screen" where
  "filterTasks toLowerCase s =
     (let filtered = tasks s;
          filtered = (if searchQuery s \<noteq> []
                      then filter (matchesQuery toLowerCase (searchQuery s)) filtered
                      else filtered)
      in s\<lparr>filteredTasks := filtered\<rparr>)"

subsection \<open>Remote calls, alerts and the way a promise settles\<close>

text \<open>
  An awaited call either resolves with a value or rejects (the \<open>catch\<close> blocks ignore
  the error value). The requests are those of \<open>TaskService\<close>:
  \<open>getTasks(filter)\<close>, \<open>updateTask(taskId, {is_completed: b})\<close>, \<open>deleteTask(taskId)\<close>.
\<close>

datatype 'a outcome = Resolved 'a | Rejected

datatype request = GetTasks task_filter | UpdateTask nat bool | DeleteTask nat

text \<open>
  \<open>Alert.alert\<close> is called in two ways: with the error title and one of three messages
  (tasks could not be loaded, updated, deleted), and with the delete confirmation and its
  two buttons. The button with the cancel style has no \<open>onPress\<close>; the destructive one
  carries the closure of lines 76 to 83 together with the \<open>taskId\<close> it captured.
\<close>

datatype notice = Load_failed | Update_failed | Delete_failed

datatype handler = Confirmed_delete nat

datatype button_style = cancel | destructive

datatype button = Button button_style "handler option"

datatype alert = Error_alert notice | Confirm_alert "button list"

datatype effect = Call request | Alert alert

subsection \<open>\<open>loadTasks\<close>\<close>

text \<open>
  \<open>setTasks\<close> writes the cell \<open>tasks\<close>; the effect with the dependency list
  \<open>[searchQuery, tasks]\<close> then runs \<open>filterTasks\<close>.
\<close>

definition setTasks :: "(js_string \<Rightarrow> js_string) \<Rightarrow> task list \<Rightarrow> screen \<Rightarrow> screen" where
  "setTasks toLowerCase fetchedTasks s = filterTasks toLowerCase (s\<lparr>tasks := fetchedTasks\<rparr>)"

text \<open>
  \<open>loadTasks\<close>: \<open>setRefreshing(true)\<close>, the awaited \<open>getTasks(filter)\<close>, then
  \<open>setTasks\<close> in the \<open>try\<close> block or the alert in the \<open>catch\<close> block, and
  \<open>setRefreshing(false)\<close> in the \<open>finally\<close> block. The first argument is the way the
  awaited call settles.
\<close>

definition loadTasks ::
  "(js_string \<Rightarrow> js_string) \<Rightarrow> task list outcome \<Rightarrow> screen \<Rightarrow> screen \<times> effect list" where
  "loadTasks toLowerCase r s =
     (let s1 = s\<lparr>refreshing := True\<rparr>;
          (s2, es) = (case r of
                        Resolved fetchedTasks \<Rightarrow> (setTasks toLowerCase fetchedTasks s1, [])
                      | Rejected \<Rightarrow> (s1, [Alert (Error_alert Load_failed)]))
      in (s2\<lparr>refreshing := False\<rparr>, Call (GetTasks (filter_st s)) # es))"

subsection \<open>\<open>toggleTaskCompletion\<close>\<close>

text \<open>
  \<open>toggleTaskCompletion(taskId, isCompleted)\<close>: the awaited
  \<open>updateTask(taskId, {is_completed: !isCompleted})\<close>, then \<open>loadTasks()\<close>, or the alert
  in the \<open>catch\<close> block. \<open>upd\<close> is the way the update settles, \<open>reload\<close> the way the
  \<open>getTasks\<close> of the reload settles.
\<close>

definition toggleTaskCompletion ::
  "(js_string \<Rightarrow> js_string) \<Rightarrow> nat \<Rightarrow> bool \<Rightarrow> 'a outcome \<Rightarrow> task list outcome \<Rightarrow> screen
     \<Rightarrow> screen \<times> effect list" where
  "toggleTaskCompletion toLowerCase taskId isCompleted upd reload s =
     (case upd of
        Resolved _ \<Rightarrow>
          (let (s', es) = loadTasks toLowerCase reload s
           in (s', Call (UpdateTask taskId (\<not> isCompleted)) # es))
      | Rejected \<Rightarrow>
          (s, [Call (UpdateTask taskId (\<not> isCompleted)), Alert (Error_alert Update_failed)]))"

text \<open>
  The only caller, in \<open>renderTaskItem\<close>:
  \<^verbatim>\<open>onPress={() => toggleTaskCompletion(item.id, item.is_completed)}\<close>.
\<close>

definition onPress_toggle ::
  "(js_string \<Rightarrow> js_string) \<Rightarrow> task \<Rightarrow> 'a outcome \<Rightarrow> task list outcome \<Rightarrow> screen
     \<Rightarrow> screen \<times> effect list" where
  "onPress_toggle toLowerCase item =
     toggleTaskCompletion toLowerCase (id_of item) (is_completed item)"

subsection \<open>\<open>deleteTask\<close>\<close>

text \<open>
  \<open>deleteTask(taskId)\<close> only shows the confirmation with its two buttons.
\<close>

definition deleteTask :: "nat \<Rightarrow> screen \<Rightarrow> screen \<times> effect list" where
  "deleteTask taskId s =
     (s, [Alert (Confirm_alert
            [Button cancel None,
             Button destructive (Some (Confirmed_delete taskId))])])"

text \<open>
  The closure of the destructive button: the awaited \<open>TaskService.deleteTask(taskId)\<close>,
  then \<open>loadTasks()\<close>, or the alert in the \<open>catch\<close> block.
\<close>

fun run_handler ::
  "(js_string \<Rightarrow> js_string) \<Rightarrow> handler \<Rightarrow> 'a outcome \<Rightarrow> task list outcome \<Rightarrow> screen
     \<Rightarrow> screen \<times> effect list" where
  "run_handler toLowerCase (Confirmed_delete taskId) del reload s =
     (case del of
        Resolved _ \<Rightarrow>
          (let (s', es) = loadTasks toLowerCase reload s
           in (s', Call (DeleteTask taskId) # es))
      | Rejected \<Rightarrow>
          (s, [Call (DeleteTask taskId), Alert (Error_alert Delete_failed)]))"

text \<open>Pressing a button of an alert runs its \<open>onPress\<close>, if it has one.\<close>

fun press ::
  "(js_string \<Rightarrow> js_string) \<Rightarrow> button \<Rightarrow> 'a outcome \<Rightarrow> task list outcome \<Rightarrow> screen
     \<Rightarrow> screen \<times> effect list" where
  "press toLowerCase (Button _ None) del reload s = (s, [])"
| "press toLowerCase (Button _ (Some h)) del reload s = run_handler toLowerCase h del reload s"

subsection \<open>\<open>formatDate\<close>\<close>

text \<open>
  A \<open>Date\<close> object holds a time value in milliseconds since the epoch, or NaN (an invalid
  date). What the platform supplies is a parameter: how a date string parses
  (\<open>None\<close> for NaN), how a time value is formatted for a locale tag and an options object,
  and the locale of the device.
\<close>

datatype date = Invalid_Date | Time_value int

datatype field_format = numeric | two_digit | short

record date_options =
  day :: "field_format option"
  month :: "field_format option"
  hour :: "field_format option"
  minute :: "field_format option"

record platform =
  parse_date :: "string \<Rightarrow> int option"
  format_date :: "string \<Rightarrow> date_options \<Rightarrow> int \<Rightarrow> string"
  device_locale :: string

text \<open>
  \<open>new Date(v)\<close> for the values a \<open>due_date\<close> can hold: undefined converts to NaN,
  null converts to 0, a string is parsed.
\<close>

definition new_Date :: "platform \<Rightarrow> string nullable \<Rightarrow> date" where
  "new_Date pf v =
     (case v of
        Undefined \<Rightarrow> Invalid_Date
      | Null \<Rightarrow> Time_value 0
      | Value str \<Rightarrow> (case parse_date pf str of None \<Rightarrow> Invalid_Date | Some t \<Rightarrow> Time_value t))"

text \<open>\<open>Date.prototype.toLocaleDateString(locales, options)\<close>; an invalid date gives a fixed text.\<close>

definition toLocaleDateString :: "platform \<Rightarrow> string \<Rightarrow> date_options \<Rightarrow> date \<Rightarrow> string" where
  "toLocaleDateString pf locales options d =
     (case d of
        Invalid_Date \<Rightarrow> ''Invalid Date''
      | Time_value t \<Rightarrow> format_date pf locales options t)"

definition formatDate :: "platform \<Rightarrow> string nullable \<Rightarrow> string" where
  "formatDate pf dateString =
     (let date = new_Date pf dateString
      in toLocaleDateString pf ''ru-RU''
           \<lparr>day = Some numeric, month = Some short,
            hour = Some two_digit, minute = Some two_digit\<rparr> date)"

text \<open>The text of the date line of \<open>renderTaskItem\<close>: \<open>formatDate(item.due_date)\<close>.\<close>

definition taskDate :: "platform \<Rightarrow> task \<Rightarrow> string" where
  "taskDate pf item = formatDate pf (due_date item)"

subsection \<open>The application shell: \<open>App\<close>\<close>

text \<open>
  The two \<open>useState\<close> cells of \<open>App\<close> with their initial values \<open>true\<close> and \<open>null\<close>.
\<close>

record app =
  isLoading :: bool
  userToken :: "string nullable"

definition App_initial :: app where
  "App_initial = \<lparr>isLoading = True, userToken = Null\<rparr>"

datatype app_effect = Call_getToken | Console_error

text \<open>
  \<open>bootstrapAsync\<close>: the awaited \<open>AuthService.getToken()\<close>, then \<open>setUserToken(token)\<close>
  in the \<open>try\<close> block or \<open>console.error\<close> in the \<open>catch\<close> block, and
  \<open>setIsLoading(false)\<close> in the \<open>finally\<close> block.
\<close>

definition bootstrapAsync :: "string nullable outcome \<Rightarrow> app \<Rightarrow> app \<times> app_effect list" where
  "bootstrapAsync r a =
     (let (a1, es) = (case r of
                        Resolved token \<Rightarrow> (a\<lparr>userToken := token\<rparr>, [])
                      | Rejected \<Rightarrow> (a, [Console_error]))
      in (a1\<lparr>isLoading := False\<rparr>, Call_getToken # es))"

text \<open>
  The identifiers that \<open>App.js\<close> binds: the names of its import declarations (lines 1 to
  19), the constants \<open>Stack\<close> and \<open>Tab\<close>, and the functions \<open>MainTabNavigator\<close> and \<open>App\<close>.
  Evaluating an identifier that is not bound throws a \<open>ReferenceError\<close>.
\<close>

definition App_scope :: "string list" where
  "App_scope =
     [''React'', ''useState'', ''useEffect'', ''NavigationContainer'',
      ''createStackNavigator'', ''createBottomTabNavigator'', ''PaperProvider'', ''Icon'',
      ''LoginScreen'', ''TasksScreen'', ''CalendarScreen'', ''AnalyticsScreen'',
      ''TeamScreen'', ''ProfileScreen'', ''AuthService'', ''TaskService'',
      ''CalendarService'', ''Stack'', ''Tab'', ''MainTabNavigator'', ''App'']"

datatype js_error = ReferenceError

definition bound :: "string \<Rightarrow> bool" where
  "bound name = (name \<in> set App_scope)"

text \<open>
  What \<open>App\<close> returns. While \<open>isLoading\<close> it evaluates \<open><SplashScreen />\<close>; otherwise the
  provider, the navigation container and the stack navigator with the screen \<open>Login\<close>
  (component \<open>LoginScreen\<close>) when \<open>userToken == null\<close>, which is true of null and of
  undefined, and the screen \<open>Main\<close> (component \<open>MainTabNavigator\<close>) otherwise. Each branch
  throws when a component it names is not bound.
\<close>

datatype root = Splash | Login | Main

definition App :: "app \<Rightarrow> js_error + root" where
  "App a =
     (if isLoading a then
        (if bound ''SplashScreen'' then Inr Splash else Inl ReferenceError)
      else if list_all bound [''PaperProvider'', ''NavigationContainer'', ''Stack''] then
        (if userToken a = Null \<or> userToken a = Undefined then
           (if bound ''LoginScreen'' then Inr Login else Inl ReferenceError)
         else
           (if bound ''MainTabNavigator'' then Inr Main else Inl ReferenceError))
      else Inl ReferenceError)"

text \<open>
  Mounting \<open>App\<close>: the first render runs on the initial cells. The effect, which has the
  empty dependency list, runs \<open>bootstrapAsync\<close> once after that render is committed; a
  render that throws is not committed (there is no error boundary), so its effect never
  runs and the error leaves the root. The result is the error or the cells after the
  effect, with the effects in order.
\<close>

definition App_mount :: "string nullable outcome \<Rightarrow> (js_error + app) \<times> app_effect list" where
  "App_mount r =
     (case App App_initial of
        Inl e \<Rightarrow> (Inl e, [])
      | Inr _ \<Rightarrow> (let (a, es) = bootstrapAsync r App_initial in (Inr a, es)))"

text \<open>What is on the screen once the mount has settled: the error, or \<open>App\<close> on the cells.\<close>

definition App_shown :: "string nullable outcome \<Rightarrow> js_error + root" where
  "App_shown r = (case fst (App_mount r) of Inl e \<Rightarrow> Inl e | Inr a \<Rightarrow> App a)"

subsection \<open>The remote task service\<close>

text \<open>
  Modelled from the spec: the remote task service (\<open>services/TaskService\<close>, imported by the
  screen, is not among the sources). The service owns the tasks. \<open>getTasks(filter)\<close> returns
  the task set matching the filter; which tasks a filter name selects is not said, so the
  selection is the parameter \<open>sel\<close>. \<open>updateTask(id, {is_completed: b})\<close> sets the field of
  the task with that id.
\<close>

definition TaskService_getTasks ::
  "(task_filter \<Rightarrow> task \<Rightarrow> bool) \<Rightarrow> task_filter \<Rightarrow> task list \<Rightarrow> task list" where
  "TaskService_getTasks sel f remote = filter (sel f) remote"

definition TaskService_updateTask :: "nat \<Rightarrow> bool \<Rightarrow> task list \<Rightarrow> task list" where
  "TaskService_updateTask taskId b remote =
     map (\<lambda>t. if id_of t = taskId then t\<lparr>is_completed := b\<rparr> else t) remote"

text \<open>
  A press on the toggle of \<open>item\<close> against this service, with no failure and no other
  writer: the update is applied, and the reload fetches with the filter of the screen.
\<close>

definition toggle_round ::
  "(js_string \<Rightarrow> js_string) \<Rightarrow> (task_filter \<Rightarrow> task \<Rightarrow> bool) \<Rightarrow> task \<Rightarrow> task list \<Rightarrow> screen
     \<Rightarrow> screen \<times> effect list" where
  "toggle_round toLowerCase sel item remote s =
     (let remote' = TaskService_updateTask (id_of item) (\<not> is_completed item) remote
      in onPress_toggle toLowerCase item (Resolved ())
           (Resolved (TaskService_getTasks sel (filter_st s) remote')) s)"

subsection \<open>The match of the search, stated on substrings\<close>

text \<open>
  A task matches a query when its lower-cased title, or its lower-cased description when
  it has one, has the lower-cased query as a contiguous part.
\<close>

definition lowered_match :: "(js_string \<Rightarrow> js_string) \<Rightarrow> js_string \<Rightarrow> task \<Rightarrow> bool" where
  "lowered_match toLowerCase q t =
     (sublist (toLowerCase q) (toLowerCase (title t)) \<or>
      (\<exists>d. description t = Some d \<and> sublist (toLowerCase q) (toLowerCase d)))"

subsection \<open>Example values\<close>

text \<open>
  The task of the toggle scenario (\<open>{id: 1, title: "Buy milk", is_completed: false}\<close>, the
  title in code units) with a chosen due date and completion flag; a task with a given id
  and title; a screen showing a given list under a given filter; and a platform on an
  \<open>en-US\<close> device whose formatter answers with the locale tag it was handed.
\<close>

abbreviation buy_milk :: "string nullable \<Rightarrow> bool \<Rightarrow> task" where
  "buy_milk due done \<equiv>
     \<lparr>id_of = 1, title = [0x42, 0x75, 0x79, 0x20, 0x6D, 0x69, 0x6C, 0x6B],
      description = None, due_date = due,
      priority = None, category = None, is_completed = done\<rparr>"

abbreviation titled :: "nat \<Rightarrow> js_string \<Rightarrow> task" where
  "titled i t \<equiv>
     \<lparr>id_of = i, title = t, description = None, due_date = Null,
      priority = None, category = None, is_completed = False\<rparr>"

abbreviation screen_of :: "task list \<Rightarrow> task_filter \<Rightarrow> screen" where
  "screen_of ts f \<equiv>
     \<lparr>tasks = ts, filteredTasks = ts, refreshing = False, searchQuery = [],
      filter_st = f, showDatePicker = False\<rparr>"

abbreviation locale_probe :: platform where
  "locale_probe \<equiv>
     \<lparr>parse_date = (\<lambda>str. if str = ''2024-05-01T10:00:00Z'' then Some 1714557600000 else None),
      format_date = (\<lambda>locales options t. locales),
      device_locale = ''en-US''\<rparr>"

text \<open>
  The Greek word of four capital letters omicron, delta, omicron, sigma (code units 039F,
  0394, 039F, 03A3) and the query of the one capital letter sigma. \<open>toLowerCase\<close> turns
  the word into 03BF, 03B4, 03BF, 03C2: a sigma that ends a word becomes the final small
  sigma 03C2 (the rule \<open>Final_Sigma\<close> of the special casing table). It turns the lone
  capital sigma into the small sigma 03C3. \<open>lower_at_sigma\<close> holds these two values of
  \<open>toLowerCase\<close>; the examples apply it to no other string (an example whose query is
  empty lower-cases nothing).
\<close>

abbreviation odos :: js_string where
  "odos \<equiv> [0x39F, 0x394, 0x39F, 0x3A3]"

abbreviation capital_sigma :: js_string where
  "capital_sigma \<equiv> [0x3A3]"

abbreviation lower_at_sigma :: "js_string \<Rightarrow> js_string" where
  "lower_at_sigma \<equiv>
     (\<lambda>str. if str = [0x39F, 0x394, 0x39F, 0x3A3] then [0x3BF, 0x3B4, 0x3BF, 0x3C2]
            else if str = [0x3A3] then [0x3C3]
            else str)"

section \<open>Properties of the search derivation\<close>

lemma includes_iff: "includes_str s q \<longleftrightarrow> (\<exists>pre post. s = pre @ q @ post)"
proof (induction s)
  case Nil
  then show ?case by auto
next
  case (Cons c s)
  show ?case
  proof
    assume "includes_str (c # s) q"
    then consider "prefix q (c # s)" | "includes_str s q" by auto
    then show "\<exists>pre post. c # s = pre @ q @ post"
    proof cases
      case 1
      then obtain post where "c # s = q @ post" by (auto simp: prefix_def)
      then have "c # s = [] @ q @ post" by simp
      then show ?thesis by blast
    next
      case 2
      with Cons.IH obtain pre post where "s = pre @ q @ post" by blast
      then have "c # s = (c # pre) @ q @ post" by simp
      then show ?thesis by blast
    qed
  next
    assume "\<exists>pre post. c # s = pre @ q @ post"
    then obtain pre post where e: "c # s = pre @ q @ post" by blast
    show "includes_str (c # s) q"
    proof (cases pre)
      case Nil
      with e have "prefix q (c # s)" by (simp add: prefix_def)
      then show ?thesis by simp
    next
      case (Cons p pre')
      with e have "s = pre' @ q @ post" by simp
      with Cons.IH have "includes_str s q" by blast
      then show ?thesis by simp
    qed
  qed
qed

lemma map_eq_middle:
  assumes "map f s = pre @ map f q @ post"
  shows "\<exists>a m b. s = a @ m @ b \<and> map f m = map f q"
proof -
  from assms obtain a r where s: "s = a @ r" and r: "map f r = map f q @ post"
    by (metis map_eq_append_conv)
  from r obtain m b where "r = m @ b" and "map f m = map f q"
    by (metis map_eq_append_conv)
  with s show ?thesis by blast
qed

lemma includes_sublist: "includes_str s q \<longleftrightarrow> sublist q s"
  unfolding includes_iff sublist_def by blast

lemma matchesQuery_lowered: "matchesQuery toLowerCase q t = lowered_match toLowerCase q t"
  by (cases "description t") (simp_all add: matchesQuery_def lowered_match_def includes_sublist)

lemma list_all2_same_image:
  "list_all2 (\<lambda>a b. f a = f b) xs ys \<longleftrightarrow> map f xs = map f ys"
proof (induction xs arbitrary: ys)
  case Nil
  then show ?case by auto
next
  case (Cons x xs)
  then show ?case by (cases ys) simp_all
qed

text \<open>
  Where \<open>toLowerCase\<close> acts on a string and on the query code unit by code unit, by \<open>f\<close>,
  the lower-cased string includes the lower-cased query exactly when a contiguous part of
  the string agrees with the query unit by unit up to \<open>f\<close>.
\<close>

lemma includes_unitwise:
  assumes "toLowerCase s = map f s" and "toLowerCase q = map f q"
  shows "includes_str (toLowerCase s) (toLowerCase q) \<longleftrightarrow>
         (\<exists>pre mid post. s = pre @ mid @ post \<and> list_all2 (\<lambda>a b. f a = f b) mid q)"
proof -
  note eq = list_all2_same_image
  show ?thesis
  proof
    assume "includes_str (toLowerCase s) (toLowerCase q)"
    then obtain pre post where "map f s = pre @ map f q @ post"
      unfolding includes_iff assms by blast
    from map_eq_middle [OF this]
    obtain a m b where "s = a @ m @ b" and "map f m = map f q"
      by blast
    then show "\<exists>pre mid post. s = pre @ mid @ post \<and> list_all2 (\<lambda>a b. f a = f b) mid q"
      unfolding eq by blast
  next
    assume "\<exists>pre mid post. s = pre @ mid @ post \<and> list_all2 (\<lambda>a b. f a = f b) mid q"
    then obtain pre mid post where s: "s = pre @ mid @ post" and "map f mid = map f q"
      unfolding eq by blast
    then have "map f s = map f pre @ map f q @ map f post"
      by simp
    then show "includes_str (toLowerCase s) (toLowerCase q)"
      unfolding includes_iff assms by blast
  qed
qed

text \<open>
  The search scenario: of the tasks \<open>Call Bob\<close> and \<open>Email Bob\<close> the query \<open>bob\<close> keeps
  both and the query \<open>alice\<close> none, for every \<open>toLowerCase\<close> that has the values named
  on these four strings.
\<close>

lemma search_scenario:
  assumes "toLowerCase [0x43, 0x61, 0x6C, 0x6C, 0x20, 0x42, 0x6F, 0x62] =
             [0x63, 0x61, 0x6C, 0x6C, 0x20, 0x62, 0x6F, 0x62]"
      and "toLowerCase [0x45, 0x6D, 0x61, 0x69, 0x6C, 0x20, 0x42, 0x6F, 0x62] =
             [0x65, 0x6D, 0x61, 0x69, 0x6C, 0x20, 0x62, 0x6F, 0x62]"
      and "toLowerCase [0x62, 0x6F, 0x62] = [0x62, 0x6F, 0x62]"
      and "toLowerCase [0x61, 0x6C, 0x69, 0x63, 0x65] = [0x61, 0x6C, 0x69, 0x63, 0x65]"
  shows "filteredTasks (filterTasks toLowerCase
           ((screen_of [titled 1 [0x43, 0x61, 0x6C, 0x6C, 0x20, 0x42, 0x6F, 0x62],
                        titled 2 [0x45, 0x6D, 0x61, 0x69, 0x6C, 0x20, 0x42, 0x6F, 0x62]] F_all)
              \<lparr>searchQuery := [0x62, 0x6F, 0x62]\<rparr>)) =
         [titled 1 [0x43, 0x61, 0x6C, 0x6C, 0x20, 0x42, 0x6F, 0x62],
          titled 2 [0x45, 0x6D, 0x61, 0x69, 0x6C, 0x20, 0x42, 0x6F, 0x62]]"
    and "filteredTasks (filterTasks toLowerCase
           ((screen_of [titled 1 [0x43, 0x61, 0x6C, 0x6C, 0x20, 0x42, 0x6F, 0x62],
                        titled 2 [0x45, 0x6D, 0x61, 0x69, 0x6C, 0x20, 0x42, 0x6F, 0x62]] F_all)
              \<lparr>searchQuery := [0x61, 0x6C, 0x69, 0x63, 0x65]\<rparr>)) =
         []"
  using assms by (simp_all add: filterTasks_def matchesQuery_def Let_def)

text \<open>
  C1, as the claim states it, fails. The title of the task is the Greek word, the query is
  the capital sigma: the title contains the query letter for letter, as its last code
  unit, so it contains it under every reading of case-insensitive. The lower-cased title
  ends in the final small sigma and the lower-cased query is the other small sigma, so
  the search derivation drops the task.
\<close>

theorem filterTasks_final_sigma_counterexample:
  "capital_sigma \<noteq> [] \<and>
   title (titled 1 odos) = [0x39F, 0x394, 0x39F] @ capital_sigma @ [] \<and>
   filteredTasks (filterTasks lower_at_sigma
     ((screen_of [titled 1 odos] F_all)\<lparr>searchQuery := capital_sigma\<rparr>)) = []"
  by (simp add: filterTasks_def matchesQuery_def Let_def)

text \<open>
  C1, amended. With the empty query the search derivation returns the task set as it is;
  with a non-empty query it returns exactly the tasks whose lower-cased title, or
  lower-cased description when present, has the lower-cased query as a substring, for
  whatever \<open>toLowerCase\<close> the platform supplies.
\<close>

theorem filterTasks_lowered_search:
  "filteredTasks (filterTasks toLowerCase (s\<lparr>tasks := T, searchQuery := q\<rparr>)) =
     (if q = [] then T else filter (lowered_match toLowerCase q) T)"
proof -
  have "matchesQuery toLowerCase q = lowered_match toLowerCase q"
    by (rule ext) (rule matchesQuery_lowered)
  then show ?thesis
    by (simp add: filterTasks_def Let_def)
qed

text \<open>
  C7. The search derivation is idempotent: run again with the same query on its own
  result, it returns that result.
\<close>

theorem filterTasks_idempotent:
  "filteredTasks (filterTasks toLowerCase
     (s\<lparr>tasks := filteredTasks (filterTasks toLowerCase (s\<lparr>tasks := T, searchQuery := q\<rparr>)),
        searchQuery := q\<rparr>)) =
   filteredTasks (filterTasks toLowerCase (s\<lparr>tasks := T, searchQuery := q\<rparr>))"
  by (simp add: filterTasks_def Let_def)

text \<open>
  C9. The derived view is a subsequence of the fetched set: its tasks stand in the order
  of the fetched set, none is moved and none is repeated.
\<close>

theorem filterTasks_subseq:
  "subseq (filteredTasks (filterTasks toLowerCase (s\<lparr>tasks := T, searchQuery := q\<rparr>))) T"
  by (simp add: filterTasks_def Let_def)

section \<open>Properties of \<open>loadTasks\<close>\<close>

text \<open>
  C2. When the \<open>getTasks\<close> call of \<open>loadTasks\<close> rejects, the task set and the derived
  search view stay as they were (only the loading flag is written), the error alert is
  raised after the request, and the loading flag is false after every call, resolved or
  rejected.
\<close>

theorem loadTasks_failure:
  "fst (loadTasks toLowerCase Rejected s) = s\<lparr>refreshing := False\<rparr> \<and>
   tasks (fst (loadTasks toLowerCase Rejected s)) = tasks s \<and>
   filteredTasks (fst (loadTasks toLowerCase Rejected s)) = filteredTasks s \<and>
   snd (loadTasks toLowerCase Rejected s) = [Call (GetTasks (filter_st s)), Alert (Error_alert Load_failed)] \<and>
   refreshing (fst (loadTasks toLowerCase r s)) = False"
  by (cases r) (simp_all add: loadTasks_def Let_def)

lemma tasks_loadTasks_Resolved: "tasks (fst (loadTasks toLowerCase (Resolved ts) s)) = ts"
  by (simp add: loadTasks_def setTasks_def filterTasks_def Let_def)

lemma loadTasks_first_call: "hd (snd (loadTasks toLowerCase r s)) = Call (GetTasks (filter_st s))"
  by (simp add: loadTasks_def Let_def split: prod.splits)

section \<open>Properties of \<open>toggleTaskCompletion\<close>\<close>

text \<open>
  C3, as the claim states it, fails: for the id 2, which no task of the local set has, the
  call raises nothing and issues the remote update for that id, followed by the reload.
\<close>

theorem toggleTaskCompletion_absent_id_counterexample:
  "2 \<notin> id_of ` set (tasks (screen_of [buy_milk Null False] F_all)) \<and>
   toggleTaskCompletion lower_at_sigma 2 False (Resolved ()) (Resolved [buy_milk Null False])
       (screen_of [buy_milk Null False] F_all) =
     (screen_of [buy_milk Null False] F_all,
      [Call (UpdateTask 2 True), Call (GetTasks F_all)])"
  by (simp add: toggleTaskCompletion_def loadTasks_def setTasks_def filterTasks_def Let_def)

text \<open>
  C3, amended. \<open>toggleTaskCompletion\<close> takes the id and the current flag from its caller
  and does not look the id up in the local set: for every id, in the set or not, it issues
  the update request with the negated flag; when the update resolves the state and the
  further effects are those of the reload, and when it rejects the state is unchanged and
  the error alert is raised. It has no other outcome, so no usage error.
\<close>

theorem toggleTaskCompletion_any_id:
  "toggleTaskCompletion toLowerCase taskId isCompleted upd reload s =
     (case upd of
        Resolved v \<Rightarrow>
          (fst (loadTasks toLowerCase reload s),
           Call (UpdateTask taskId (\<not> isCompleted)) # snd (loadTasks toLowerCase reload s))
      | Rejected \<Rightarrow>
          (s, [Call (UpdateTask taskId (\<not> isCompleted)), Alert (Error_alert Update_failed)]))"
  by (cases upd) (simp_all add: toggleTaskCompletion_def split: prod.splits)

lemma TaskService_update_then_get:
  assumes "u \<in> set (TaskService_getTasks sel f (TaskService_updateTask taskId b remote))"
      and "id_of u = taskId"
  shows "is_completed u = b"
proof -
  from assms(1) obtain t where t: "t \<in> set remote"
      and u: "u = (if id_of t = taskId then t\<lparr>is_completed := b\<rparr> else t)"
    by (auto simp: TaskService_getTasks_def TaskService_updateTask_def)
  from u assms(2) have "id_of t = taskId"
    by (simp split: if_splits)
  with u show ?thesis by simp
qed

lemma TaskService_update_keeps:
  assumes "t \<in> set remote" and "sel f (t\<lparr>is_completed := b\<rparr>)"
  shows "t\<lparr>is_completed := b\<rparr> \<in>
           set (TaskService_getTasks sel f (TaskService_updateTask (id_of t) b remote))"
proof -
  from assms(1) have "t\<lparr>is_completed := b\<rparr> \<in> set (TaskService_updateTask (id_of t) b remote)"
    by (force simp: TaskService_updateTask_def)
  with assms(2) show ?thesis
    by (simp add: TaskService_getTasks_def)
qed

lemma tasks_toggle_round:
  "tasks (fst (toggle_round toLowerCase sel item remote s)) =
     TaskService_getTasks sel (filter_st s)
       (TaskService_updateTask (id_of item) (\<not> is_completed item) remote)"
  by (simp add: toggle_round_def onPress_toggle_def toggleTaskCompletion_def Let_def
      tasks_loadTasks_Resolved case_prod_beta)

text \<open>
  C4. For a task \<open>item\<close> of the local set, the local set being what the service returned
  for the filter of the screen: the press on its toggle sends the update request with the
  negation of the flag of \<open>item\<close>; when the update resolves, the reload follows (its first
  effect is the \<open>getTasks\<close> request for the filter) and the state is the one the reload
  leaves; against the service, every task of the reloaded set with the id of \<open>item\<close> has the
  negated flag, and the toggled task is in the reloaded set when the filter selects it;
  when the update rejects, the state is unchanged and the error alert is raised.
\<close>

theorem onPress_toggle_present:
  assumes "item \<in> set (tasks s)"
      and "tasks s = TaskService_getTasks sel (filter_st s) remote"
  shows "onPress_toggle toLowerCase item (Resolved v) reload s =
           (fst (loadTasks toLowerCase reload s),
            Call (UpdateTask (id_of item) (\<not> is_completed item)) # snd (loadTasks toLowerCase reload s)) \<and>
         hd (snd (loadTasks toLowerCase reload s)) = Call (GetTasks (filter_st s)) \<and>
         (\<forall>u \<in> set (tasks (fst (toggle_round toLowerCase sel item remote s))).
            id_of u = id_of item \<longrightarrow> is_completed u = (\<not> is_completed item)) \<and>
         (sel (filter_st s) (item\<lparr>is_completed := \<not> is_completed item\<rparr>) \<longrightarrow>
            item\<lparr>is_completed := \<not> is_completed item\<rparr>
              \<in> set (tasks (fst (toggle_round toLowerCase sel item remote s)))) \<and>
         onPress_toggle toLowerCase item Rejected reload s =
           (s, [Call (UpdateTask (id_of item) (\<not> is_completed item)),
                Alert (Error_alert Update_failed)])"
proof -
  have a: "onPress_toggle toLowerCase item (Resolved v) reload s =
           (fst (loadTasks toLowerCase reload s),
            Call (UpdateTask (id_of item) (\<not> is_completed item)) # snd (loadTasks toLowerCase reload s))"
    by (simp add: onPress_toggle_def toggleTaskCompletion_def split: prod.splits)
  have b: "\<forall>u \<in> set (tasks (fst (toggle_round toLowerCase sel item remote s))).
            id_of u = id_of item \<longrightarrow> is_completed u = (\<not> is_completed item)"
    unfolding tasks_toggle_round using TaskService_update_then_get by blast
  from assms have "item \<in> set remote"
    by (simp add: TaskService_getTasks_def)
  then have c: "sel (filter_st s) (item\<lparr>is_completed := \<not> is_completed item\<rparr>) \<longrightarrow>
            item\<lparr>is_completed := \<not> is_completed item\<rparr>
              \<in> set (tasks (fst (toggle_round toLowerCase sel item remote s)))"
    unfolding tasks_toggle_round using TaskService_update_keeps by blast
  have d: "onPress_toggle toLowerCase item Rejected reload s =
           (s, [Call (UpdateTask (id_of item) (\<not> is_completed item)),
                Alert (Error_alert Update_failed)])"
    by (simp add: onPress_toggle_def toggleTaskCompletion_def)
  from a b c d loadTasks_first_call show ?thesis by blast
qed

text \<open>
  The toggle scenario: the set holds the task 1, not completed, under the filter \<open>all\<close>;
  the service is sent \<open>{is_completed: true}\<close>, and the reloaded set holds the task 1
  completed.
\<close>

theorem onPress_toggle_present_witness:
  "buy_milk Null False \<in> set (tasks (screen_of [buy_milk Null False] F_all)) \<and>
   tasks (screen_of [buy_milk Null False] F_all) =
     TaskService_getTasks (\<lambda>f t. True) (filter_st (screen_of [buy_milk Null False] F_all))
       [buy_milk Null False] \<and>
   snd (onPress_toggle lower_at_sigma (buy_milk Null False) (Resolved ()) (Resolved [buy_milk Null True])
          (screen_of [buy_milk Null False] F_all)) =
     [Call (UpdateTask 1 True), Call (GetTasks F_all)] \<and>
   buy_milk Null True
     \<in> set (tasks (fst (toggle_round lower_at_sigma (\<lambda>f t. True) (buy_milk Null False) [buy_milk Null False]
                          (screen_of [buy_milk Null False] F_all)))) \<and>
   filteredTasks (fst (toggle_round lower_at_sigma (\<lambda>f t. True) (buy_milk Null False) [buy_milk Null False]
                         (screen_of [buy_milk Null False] F_all))) = [buy_milk Null True]"
proof -
  have h1: "buy_milk Null False \<in> set (tasks (screen_of [buy_milk Null False] F_all))"
    by simp
  have h2: "tasks (screen_of [buy_milk Null False] F_all) =
     TaskService_getTasks (\<lambda>f t. True) (filter_st (screen_of [buy_milk Null False] F_all))
       [buy_milk Null False]"
    by (simp add: TaskService_getTasks_def)
  note w = onPress_toggle_present
    [OF h1 h2, where v = "()" and reload = "Resolved [buy_milk Null True]"
      and toLowerCase = lower_at_sigma]
  from w have "onPress_toggle lower_at_sigma (buy_milk Null False) (Resolved ()) (Resolved [buy_milk Null True])
          (screen_of [buy_milk Null False] F_all) =
       (fst (loadTasks lower_at_sigma (Resolved [buy_milk Null True]) (screen_of [buy_milk Null False] F_all)),
        Call (UpdateTask (id_of (buy_milk Null False)) (\<not> is_completed (buy_milk Null False))) #
        snd (loadTasks lower_at_sigma (Resolved [buy_milk Null True]) (screen_of [buy_milk Null False] F_all)))"
    by (rule conjunct1)
  then have c1: "snd (onPress_toggle lower_at_sigma (buy_milk Null False) (Resolved ())
          (Resolved [buy_milk Null True]) (screen_of [buy_milk Null False] F_all)) =
     [Call (UpdateTask 1 True), Call (GetTasks F_all)]"
    by (simp add: loadTasks_def Let_def)
  from w have "(buy_milk Null False)\<lparr>is_completed := \<not> is_completed (buy_milk Null False)\<rparr>
      \<in> set (tasks (fst (toggle_round lower_at_sigma (\<lambda>f t. True) (buy_milk Null False) [buy_milk Null False]
                            (screen_of [buy_milk Null False] F_all))))"
    by blast
  then have c2: "buy_milk Null True
     \<in> set (tasks (fst (toggle_round lower_at_sigma (\<lambda>f t. True) (buy_milk Null False) [buy_milk Null False]
                          (screen_of [buy_milk Null False] F_all))))"
    by simp
  have c3: "filteredTasks (fst (toggle_round lower_at_sigma (\<lambda>f t. True) (buy_milk Null False)
        [buy_milk Null False] (screen_of [buy_milk Null False] F_all))) = [buy_milk Null True]"
    by (simp add: toggle_round_def onPress_toggle_def toggleTaskCompletion_def loadTasks_def
        setTasks_def filterTasks_def TaskService_getTasks_def TaskService_updateTask_def Let_def)
  from h1 h2 c1 c2 c3 show ?thesis by blast
qed

section \<open>Properties of \<open>deleteTask\<close>\<close>

text \<open>
  C5. \<open>deleteTask\<close> itself only raises the confirmation with its two buttons: no request,
  no change of state. Pressing the cancel button issues no request and changes no state.
  Pressing the destructive button issues the delete request; when it resolves the reload
  follows, and when it rejects the error alert is raised and the state is unchanged.
\<close>

theorem deleteTask_confirmation:
  "deleteTask taskId s =
     (s, [Alert (Confirm_alert [Button cancel None,
                                Button destructive (Some (Confirmed_delete taskId))])]) \<and>
   press toLowerCase (Button cancel None) del reload s = (s, []) \<and>
   press toLowerCase (Button destructive (Some (Confirmed_delete taskId))) (Resolved v) reload s =
     (fst (loadTasks toLowerCase reload s), Call (DeleteTask taskId) # snd (loadTasks toLowerCase reload s)) \<and>
   hd (snd (loadTasks toLowerCase reload s)) = Call (GetTasks (filter_st s)) \<and>
   press toLowerCase (Button destructive (Some (Confirmed_delete taskId))) Rejected reload s =
     (s, [Call (DeleteTask taskId), Alert (Error_alert Delete_failed)])"
  by (simp add: deleteTask_def loadTasks_first_call split: prod.splits)

section \<open>Properties of \<open>formatDate\<close>\<close>

text \<open>
  C6, as the claim states it, fails. A task with no due date renders as the text of an
  invalid date when the property is undefined, and as the formatted epoch when it is null;
  and on a device whose locale is \<open>en-US\<close> the formatter is handed the tag \<open>ru-RU\<close>.
\<close>

theorem formatDate_counterexample:
  "taskDate locale_probe (buy_milk Undefined False) = ''Invalid Date'' \<and>
   taskDate locale_probe (buy_milk Null False) =
     format_date locale_probe ''ru-RU''
       \<lparr>day = Some numeric, month = Some short,
        hour = Some two_digit, minute = Some two_digit\<rparr> 0 \<and>
   device_locale locale_probe = ''en-US'' \<and>
   taskDate locale_probe (buy_milk (Value ''2024-05-01T10:00:00Z'') False) = ''ru-RU''"
  by (simp add: taskDate_def formatDate_def new_Date_def toLocaleDateString_def)

text \<open>
  C6, amended. A due date that is present and parses to a time value renders as the
  platform's formatting of that time for the fixed locale tag \<open>ru-RU\<close>, with the day
  numeric, the month short, and hour and minute in two digits.
\<close>

theorem formatDate_present:
  "parse_date pf str = Some t \<Longrightarrow>
   formatDate pf (Value str) =
     format_date pf ''ru-RU''
       \<lparr>day = Some numeric, month = Some short,
        hour = Some two_digit, minute = Some two_digit\<rparr> t"
  by (simp add: formatDate_def new_Date_def toLocaleDateString_def)

theorem formatDate_present_witness:
  "parse_date locale_probe ''2024-05-01T10:00:00Z'' = Some 1714557600000 \<and>
   formatDate locale_probe (Value ''2024-05-01T10:00:00Z'') =
     format_date locale_probe ''ru-RU''
       \<lparr>day = Some numeric, month = Some short,
        hour = Some two_digit, minute = Some two_digit\<rparr> 1714557600000"
proof -
  have h: "parse_date locale_probe ''2024-05-01T10:00:00Z'' = Some 1714557600000"
    by simp
  from h formatDate_present [OF h] show ?thesis by (rule conjI)
qed

section \<open>Properties of the application shell\<close>

text \<open>
  What \<open>bootstrapAsync\<close> does when it runs on the initial cells, and what \<open>App\<close> returns
  on the cells it leaves: one \<open>getToken\<close> call for every outcome; the screen \<open>Login\<close> for
  a null or undefined token and after a rejection (which is logged, the token staying
  null); the screen \<open>Main\<close> for a token.
\<close>

lemma bootstrapAsync_getToken_once:
  "count_list (snd (bootstrapAsync r App_initial)) Call_getToken = 1"
  by (cases r) (simp_all add: bootstrapAsync_def)

lemma bootstrapAsync_roots:
  "App (fst (bootstrapAsync (Resolved Null) App_initial)) = Inr Login"
  "App (fst (bootstrapAsync (Resolved Undefined) App_initial)) = Inr Login"
  "App (fst (bootstrapAsync (Resolved (Value tok)) App_initial)) = Inr Main"
  by (simp_all add: bootstrapAsync_def App_initial_def App_def bound_def App_scope_def)

lemma bootstrapAsync_rejected:
  "bootstrapAsync Rejected App_initial =
     (\<lparr>isLoading = False, userToken = Null\<rparr>, [Call_getToken, Console_error])"
  "App (fst (bootstrapAsync Rejected App_initial)) = Inr Login"
  by (simp_all add: bootstrapAsync_def App_initial_def App_def bound_def App_scope_def)

text \<open>
  The first render does not get that far: \<open>SplashScreen\<close> is not among the identifiers of
  \<open>App.js\<close>, and the cell \<open>isLoading\<close> starts true.
\<close>

lemma SplashScreen_not_bound: "\<not> bound ''SplashScreen''"
  by (simp add: bound_def App_scope_def)

lemma App_first_render: "App App_initial = Inl ReferenceError"
  by (simp add: App_def App_initial_def SplashScreen_not_bound)

text \<open>
  C8 does not hold of the code. At a start where \<open>getToken\<close> would resolve with the token
  \<open>abc\<close>, and at one where it would resolve with null, the first render throws, no
  \<open>getToken\<close> call is made and no root is shown.
\<close>

theorem App_mount_getToken_not_called:
  "App_mount (Resolved (Value ''abc'')) = (Inl ReferenceError, []) \<and>
   count_list (snd (App_mount (Resolved (Value ''abc'')))) Call_getToken = 0 \<and>
   App_shown (Resolved (Value ''abc'')) = Inl ReferenceError \<and>
   App_mount (Resolved Null) = (Inl ReferenceError, []) \<and>
   App_shown (Resolved Null) = Inl ReferenceError"
  by (simp add: App_mount_def App_shown_def App_first_render)

text \<open>
  C10 does not hold of the code. At a start where \<open>getToken\<close> would reject, the first
  render throws before \<open>bootstrapAsync\<close> runs: nothing is logged, the loading flag is
  never cleared, and the screen \<open>Login\<close> is not shown.
\<close>

theorem App_mount_rejected_crashes:
  "App_mount Rejected = (Inl ReferenceError, []) \<and>
   App_shown Rejected = Inl ReferenceError \<and>
   App_shown Rejected \<noteq> Inr Login"
  by (simp add: App_mount_def App_shown_def App_first_render)

end
